theory Spec2Isabelle
  imports Main "HOL-Library.AList"
begin

section \<open>Python string operations used by server.py\<close>

text \<open>
  A Python \<open>str\<close> is a sequence of code points. The model is a \<open>char list\<close> in which every
  \<open>char\<close> stands for one code point of the range U+0000..U+00FF. The searching functions
  (\<open>str.count\<close>, \<open>str.replace\<close>, \<open>str.endswith\<close>) do not look at what a character is and
  are polymorphic; the classifying ones (\<open>str.strip\<close>, \<open>str.split\<close>, \<open>str.lower\<close>) are
  written for that range.
\<close>

definition str_startswith :: "'a list \<Rightarrow> 'a list \<Rightarrow> bool" where
  "str_startswith p s = (take (length p) s = p)"

definition str_endswith :: "'a list \<Rightarrow> 'a list \<Rightarrow> bool" where
  \<comment> \<open>\<open>s.endswith(suf)\<close>\<close>
  "str_endswith s suf = (length suf \<le> length s \<and> drop (length s - length suf) s = suf)"

text \<open>
  \<open>s.count(sub)\<close> scans from the left and counts occurrences that do not overlap: after a
  match the scan goes on behind it. The empty pattern matches between any two characters
  and at both ends.
\<close>

fun count_scan :: "'a list \<Rightarrow> 'a list \<Rightarrow> nat" where
  "count_scan sub [] = 0"
| "count_scan sub (c # cs) =
     (if str_startswith sub (c # cs)
      then Suc (count_scan sub (drop (length sub - 1) cs))
      else count_scan sub cs)"

definition str_count :: "'a list \<Rightarrow> 'a list \<Rightarrow> nat" where
  \<comment> \<open>\<open>s.count(sub)\<close>; the arguments are in the order (pattern, text)\<close>
  "str_count sub s = (if sub = [] then length s + 1 else count_scan sub s)"

text \<open>
  \<open>s.replace(old, new)\<close> replaces the occurrences that \<open>count\<close> counts. With an empty
  \<open>old\<close> it puts \<open>new\<close> in front of every character and at the end.
\<close>

fun replace_scan :: "'a list \<Rightarrow> 'a list \<Rightarrow> 'a list \<Rightarrow> 'a list" where
  "replace_scan old new [] = []"
| "replace_scan old new (c # cs) =
     (if str_startswith old (c # cs)
      then new @ replace_scan old new (drop (length old - 1) cs)
      else c # replace_scan old new cs)"

definition str_replace :: "'a list \<Rightarrow> 'a list \<Rightarrow> 'a list \<Rightarrow> 'a list" where
  \<comment> \<open>\<open>s.replace(old, new)\<close>; the arguments are in the order (old, new, text)\<close>
  "str_replace old new s =
     (if old = [] then new @ concat (map (\<lambda>c. c # new) s) else replace_scan old new s)"

definition is_space :: "char \<Rightarrow> bool" where
  \<comment> \<open>\<open>c.isspace()\<close> on U+0000..U+00FF: TAB, LF, VT, FF, CR, FS, GS, RS, US, SPACE, NEL, NBSP\<close>
  "is_space c = (of_char c \<in> {9, 10, 11, 12, 13, 28, 29, 30, 31, 32, 133, 160 :: nat})"

definition str_strip :: "string \<Rightarrow> string" where
  \<comment> \<open>\<open>s.strip()\<close>\<close>
  "str_strip s = rev (dropWhile is_space (rev (dropWhile is_space s)))"

text \<open>
  \<open>s.split()\<close> without a separator: runs of whitespace separate the tokens, and there is no
  empty token at either end. \<open>cur\<close> is the token being read, reversed.
\<close>

fun split_scan :: "string \<Rightarrow> string \<Rightarrow> string list" where
  "split_scan cur [] = (if cur = [] then [] else [rev cur])"
| "split_scan cur (c # cs) =
     (if is_space c
      then (if cur = [] then split_scan [] cs else rev cur # split_scan [] cs)
      else split_scan (c # cur) cs)"

definition str_split :: "string \<Rightarrow> string list" where
  "str_split s = split_scan [] s"

definition lower_char :: "char \<Rightarrow> char" where
  \<comment> \<open>A..Z, and the upper-case letters of U+00C0..U+00DE (all but the multiplication sign)\<close>
  "lower_char c =
     (let n = (of_char c :: nat)
      in if (65 \<le> n \<and> n \<le> 90) \<or> (192 \<le> n \<and> n \<le> 222 \<and> n \<noteq> 215)
         then char_of (n + 32) else c)"

definition str_lower :: "string \<Rightarrow> string" where
  \<comment> \<open>\<open>s.lower()\<close>\<close>
  "str_lower s = map lower_char s"

section \<open>The file system and the tool results\<close>

text \<open>
  The tools read and write files. The world holds the contents of the files, the paths
  that cannot be written (the directory cannot be made, or the file cannot be opened for
  writing), and the log of the paths opened for reading.
\<close>

record world =
  files :: "string \<rightharpoonup> string"
  unwritable :: "string set"
  opened :: "string list"

definition read_file :: "string \<Rightarrow> world \<Rightarrow> string option \<times> world" where
  \<comment> \<open>\<open>with open(path, 'r') as f: f.read()\<close>; \<open>None\<close> when it raises\<close>
  "read_file path w = (files w path, w\<lparr>opened := opened w @ [path]\<rparr>)"

definition write_file :: "string \<Rightarrow> string \<Rightarrow> world \<Rightarrow> world option" where
  \<comment> \<open>\<open>os.makedirs(os.path.dirname(path), exist_ok=True)\<close>, then \<open>open(path, 'w')\<close> and
      \<open>f.write(content)\<close>; \<open>None\<close> when one of them raises\<close>
  "write_file path content w =
     (if path \<in> unwritable w then None else Some (w\<lparr>files := (files w)(path \<mapsto> content)\<rparr>))"

section \<open>The document tree\<close>

text \<open>
  \<open>BeautifulSoup(content, 'lxml-xml')\<close> gives a tree of tags. A tag has a name, attributes
  with unique keys and child tags, in document order. The parser belongs to a library and
  is taken as the function \<open>parse_xml\<close> from the text to the top-level tags.
\<close>

datatype node = Node (label: string) (attrs: "(string \<times> string) list") (children: "node list")

fun descendants :: "node list \<Rightarrow> node list" where
  \<comment> \<open>every tag below the document, in document order\<close>
  "descendants [] = []"
| "descendants (Node l a cs # ns) = Node l a cs # descendants cs @ descendants ns"

definition find_all :: "string \<Rightarrow> node list \<Rightarrow> node list" where
  \<comment> \<open>\<open>soup.find_all(name)\<close>\<close>
  "find_all name soup = filter (\<lambda>n. label n = name) (descendants soup)"

definition tag_get :: "node \<Rightarrow> string \<Rightarrow> string \<Rightarrow> string" where
  \<comment> \<open>\<open>tag.get(key, default)\<close>\<close>
  "tag_get n key dflt = (case map_of (attrs n) key of None \<Rightarrow> dflt | Some v \<Rightarrow> v)"

text \<open>What \<open>analyze_workbook\<close> collects before it renders the text.\<close>

record analysis =
  workbook_version :: string
  found_columns :: "string list"
  found_formulas :: "string list"
  found_worksheets :: "string list"
  found_prefixes :: "(string \<times> string list) list"
  shown_patterns :: "(string \<times> string list) list"

text \<open>
  \<open>call_tool\<close> either raises (\<open>ValueError\<close>, for a missing argument or an unknown tool) or
  returns one \<open>TextContent\<close>. The texts are kept as the data they are rendered from:
  \<^item> \<open>Not_csv p\<close>: "Error: File must be a CSV file. Got p"
  \<^item> \<open>Line_too_short n\<close>: "Error: Line n does not have at least two columns"
  \<^item> \<open>Mapping_file_empty\<close>: "Error: Mapping file is empty"
  \<^item> \<open>Mapping_valid ms\<close>: "Mapping file is valid with (len ms) mappings: ..."
  \<^item> \<open>Validate_mapping_error\<close>: "Error validating mapping file: ..."
  \<^item> \<open>Not_twb p\<close>: "Error: File must be a Tableau workbook (.twb) file. Got p"
  \<^item> \<open>Not_a_workbook\<close>: "Error: File does not appear to be a valid Tableau workbook"
  \<^item> \<open>Workbook_valid v d s\<close>: "Tableau workbook is valid (version v) with d datasources and
     s worksheets"
  \<^item> \<open>Validate_workbook_error\<close>: "Error validating Tableau workbook: ..."
  \<^item> \<open>Remapped made rules details keys out\<close>: "Successfully remapped dimensions ... Made
     (made) replacements using (rules) mapping rules. Replacement details: ... across (keys)
     different mappings ... saved to: out"
  \<^item> \<open>Remap_error\<close>: "Error remapping dimensions: ..."
  \<^item> \<open>Analysis r\<close>: "# Tableau Workbook Analysis ...", with the version, the numbers of
     worksheets and fields, the fields and the worksheets (each list sorted), and the
     prefixes of \<open>shown_patterns r\<close> with their fields
  \<^item> \<open>Analyze_error\<close>: "Error analyzing workbook: ..."
\<close>

datatype exn = ValueError string

datatype text_content =
    Not_csv string
  | Line_too_short nat
  | Mapping_file_empty
  | Mapping_valid "(string \<times> string) list"
  | Validate_mapping_error
  | Not_twb string
  | Not_a_workbook
  | Workbook_valid string nat nat
  | Validate_workbook_error
  | Remapped nat nat "(string \<times> string \<times> nat) list" nat string
  | Remap_error
  | Analysis analysis
  | Analyze_error

section \<open>remap\_dimensions\<close>

text \<open>
  The loop over the rows of the mapping file (server.py, lines 390 to 395): a row with two
  columns or more gives a mapping, any other row is passed over.
\<close>

fun load_mappings :: "string list list \<Rightarrow> (string \<times> string) list \<Rightarrow> (string \<times> string) list" where
  "load_mappings [] mappings = mappings"
| "load_mappings (row # rows) mappings =
     (if 2 \<le> length row
      then load_mappings rows (mappings @ [(str_strip (row ! 0), str_strip (row ! 1))])
      else load_mappings rows mappings)"

text \<open>
  The state of the replacement loop (lines 408 to 417). \<open>replacements_by_mapping\<close> is a
  Python \<open>dict\<close>: an association list whose keys are distinct, in the order in which they
  were first stored; \<open>d[k] = v\<close> is \<open>AList.update k v d\<close>.
\<close>

record remap_state =
  modified_content :: string
  replacements_made :: nat
  replacements_by_mapping :: "(string \<times> nat) list"

definition init_state :: "string \<Rightarrow> remap_state" where
  "init_state tableau_content =
     \<lparr>modified_content = tableau_content, replacements_made = 0, replacements_by_mapping = []\<rparr>"

fun apply_mappings :: "(string \<times> string) list \<Rightarrow> remap_state \<Rightarrow> remap_state" where
  "apply_mappings [] st = st"
| "apply_mappings ((old, new) # mappings) st =
     (let occurrences = str_count old (modified_content st)
      in if 0 < occurrences
         then apply_mappings mappings
                \<lparr>modified_content = str_replace old new (modified_content st),
                 replacements_made = replacements_made st + occurrences,
                 replacements_by_mapping = AList.update old occurrences (replacements_by_mapping st)\<rparr>
         else apply_mappings mappings st)"

definition dict_get :: "(string \<times> nat) list \<Rightarrow> string \<Rightarrow> nat \<Rightarrow> nat" where
  \<comment> \<open>\<open>d.get(key, default)\<close>\<close>
  "dict_get d k dflt = (case map_of d k of None \<Rightarrow> dflt | Some v \<Rightarrow> v)"

definition replacements_details ::
  "(string \<times> string) list \<Rightarrow> (string \<times> nat) list \<Rightarrow> (string \<times> string \<times> nat) list" where
  \<comment> \<open>lines 425 to 428: one line for every mapping, with old, new and the count\<close>
  "replacements_details mappings by_mapping =
     map (\<lambda>(old, new). (old, new, dict_get by_mapping old 0)) mappings"

text \<open>
  The tool (lines 378 to 456). \<open>csv_reader\<close> is \<open>csv.reader\<close> of the standard library,
  taken as the function from the text of a file to its rows. Whatever is raised inside
  the \<open>try\<close> is answered with "Error remapping dimensions: ...".
\<close>

definition remap_dimensions ::
  "(string \<Rightarrow> string list list) \<Rightarrow> (string \<rightharpoonup> string) \<Rightarrow> world \<Rightarrow> (exn + text_content) \<times> world" where
  "remap_dimensions csv_reader arguments w =
     (case (arguments ''mapping_file_path'', arguments ''workbook_file_path'',
            arguments ''output_file_path'') of
        (Some mapping_file_path, Some workbook_file_path, Some output_file_path) \<Rightarrow>
          (case read_file mapping_file_path w of
             (None, w1) \<Rightarrow> (Inr Remap_error, w1)
           | (Some mapping_text, w1) \<Rightarrow>
               (let mappings = load_mappings (csv_reader mapping_text) []
                in if mappings = [] then (Inr Mapping_file_empty, w1)
                   else (case read_file workbook_file_path w1 of
                           (None, w2) \<Rightarrow> (Inr Remap_error, w2)
                         | (Some tableau_content, w2) \<Rightarrow>
                             (let st = apply_mappings mappings (init_state tableau_content)
                              in case write_file output_file_path (modified_content st) w2 of
                                   None \<Rightarrow> (Inr Remap_error, w2)
                                 | Some w3 \<Rightarrow>
                                     (Inr (Remapped (replacements_made st) (length mappings)
                                            (replacements_details mappings
                                               (replacements_by_mapping st))
                                            (length (replacements_by_mapping st))
                                            output_file_path), w3)))))
      | _ \<Rightarrow> (Inl (ValueError ''Missing required arguments''), w))"

section \<open>validate\_mapping\_file\<close>

text \<open>
  The loop over \<open>enumerate(reader)\<close> (lines 304 to 313): the first row with fewer than two
  columns ends the tool with its number, counted from 1.
\<close>

fun validate_rows ::
  "nat \<Rightarrow> string list list \<Rightarrow> (string \<times> string) list \<Rightarrow> nat + (string \<times> string) list" where
  "validate_rows i [] mappings = Inr mappings"
| "validate_rows i (row # rows) mappings =
     (if length row < 2 then Inl (i + 1)
      else validate_rows (i + 1) rows (mappings @ [(str_strip (row ! 0), str_strip (row ! 1))]))"

definition validate_mapping_file ::
  "(string \<Rightarrow> string list list) \<Rightarrow> (string \<rightharpoonup> string) \<Rightarrow> world \<Rightarrow> (exn + text_content) \<times> world" where
  "validate_mapping_file csv_reader arguments w =
     (case arguments ''mapping_file_path'' of
        None \<Rightarrow> (Inl (ValueError ''Missing required argument: mapping_file_path''), w)
      | Some mapping_file_path \<Rightarrow>
          if \<not> str_endswith (str_lower mapping_file_path) ''.csv''
          then (Inr (Not_csv mapping_file_path), w)
          else (case read_file mapping_file_path w of
                  (None, w1) \<Rightarrow> (Inr Validate_mapping_error, w1)
                | (Some mapping_text, w1) \<Rightarrow>
                    (case validate_rows 0 (csv_reader mapping_text) [] of
                       Inl n \<Rightarrow> (Inr (Line_too_short n), w1)
                     | Inr mappings \<Rightarrow>
                         if mappings = [] then (Inr Mapping_file_empty, w1)
                         else (Inr (Mapping_valid mappings), w1))))"

section \<open>validate\_tableau\_workbook\<close>

definition validate_tableau_workbook ::
  "(string \<Rightarrow> node list) \<Rightarrow> (string \<rightharpoonup> string) \<Rightarrow> world \<Rightarrow> (exn + text_content) \<times> world" where
  "validate_tableau_workbook parse_xml arguments w =
     (case arguments ''workbook_file_path'' of
        None \<Rightarrow> (Inl (ValueError ''Missing required argument: workbook_file_path''), w)
      | Some workbook_file_path \<Rightarrow>
          if \<not> str_endswith (str_lower workbook_file_path) ''.twb''
          then (Inr (Not_twb workbook_file_path), w)
          else (case read_file workbook_file_path w of
                  (None, w1) \<Rightarrow> (Inr Validate_workbook_error, w1)
                | (Some content, w1) \<Rightarrow>
                    (let soup = parse_xml content
                     in case find_all ''workbook'' soup of
                          [] \<Rightarrow> (Inr Not_a_workbook, w1)
                        | workbook # _ \<Rightarrow>
                            (Inr (Workbook_valid (tag_get workbook ''version'' ''unknown'')
                                   (length (find_all ''datasource'' soup))
                                   (length (find_all ''worksheet'' soup))), w1))))"

section \<open>analyze\_workbook\<close>

text \<open>
  The three loops that collect names and formulas (lines 471 to 490), each over the tags of
  one name.
\<close>

fun collect_columns :: "node list \<Rightarrow> string list \<Rightarrow> string list" where
  "collect_columns [] columns = columns"
| "collect_columns (column # rest) columns =
     (let name = tag_get column ''name'' []
      in if name \<noteq> [] \<and> name \<notin> set columns
         then collect_columns rest (columns @ [name])
         else collect_columns rest columns)"

fun collect_formulas :: "node list \<Rightarrow> string list \<Rightarrow> string list" where
  "collect_formulas [] calculated_fields = calculated_fields"
| "collect_formulas (calculation # rest) calculated_fields =
     (let formula = tag_get calculation ''formula'' []
      in if formula \<noteq> []
         then collect_formulas rest (calculated_fields @ [formula])
         else collect_formulas rest calculated_fields)"

fun collect_worksheets :: "node list \<Rightarrow> string list \<Rightarrow> string list" where
  "collect_worksheets [] worksheets = worksheets"
| "collect_worksheets (worksheet # rest) worksheets =
     (let name = tag_get worksheet ''name'' []
      in if name \<noteq> []
         then collect_worksheets rest (worksheets @ [name])
         else collect_worksheets rest worksheets)"

text \<open>
  The pattern detection (lines 517 to 536). \<open>prefixed_fields\<close> is a \<open>dict\<close> from a prefix
  to the list of the columns that start with it; only a prefix with more than one column
  is displayed.
\<close>

fun detect_prefixes :: "string list \<Rightarrow> (string \<times> string list) list \<Rightarrow> (string \<times> string list) list" where
  "detect_prefixes [] prefixed = prefixed"
| "detect_prefixes (column # rest) prefixed =
     (let parts = str_split column
      in if 1 < length parts
         then (let prefix = parts ! 0
               in case map_of prefixed prefix of
                    Some flds \<Rightarrow>
                      detect_prefixes rest (AList.update prefix (flds @ [column]) prefixed)
                  | None \<Rightarrow> detect_prefixes rest (AList.update prefix [column] prefixed))
         else detect_prefixes rest prefixed)"

definition displayed_patterns :: "(string \<times> string list) list \<Rightarrow> (string \<times> string list) list" where
  "displayed_patterns prefixed = filter (\<lambda>(prefix, flds). 1 < length flds) prefixed"

definition analyze :: "node list \<Rightarrow> analysis option" where
  \<comment> \<open>\<open>None\<close> when there is no \<open>workbook\<close> tag: \<open>soup.workbook.get\<close> raises\<close>
  "analyze soup =
     (let cols = collect_columns (find_all ''column'' soup) [];
          formulas = collect_formulas (find_all ''calculation'' soup) [];
          sheets = collect_worksheets (find_all ''worksheet'' soup) []
      in case find_all ''workbook'' soup of
           [] \<Rightarrow> None
         | workbook # _ \<Rightarrow>
             (let prefixed = detect_prefixes cols []
              in Some \<lparr>workbook_version = tag_get workbook ''version'' ''unknown'',
                       found_columns = cols,
                       found_formulas = formulas,
                       found_worksheets = sheets,
                       found_prefixes = prefixed,
                       shown_patterns = displayed_patterns prefixed\<rparr>))"

definition analyze_workbook ::
  "(string \<Rightarrow> node list) \<Rightarrow> (string \<rightharpoonup> string) \<Rightarrow> world \<Rightarrow> (exn + text_content) \<times> world" where
  "analyze_workbook parse_xml arguments w =
     (case arguments ''workbook_file_path'' of
        None \<Rightarrow> (Inl (ValueError ''Missing required argument: workbook_file_path''), w)
      | Some workbook_file_path \<Rightarrow>
          (case read_file workbook_file_path w of
             (None, w1) \<Rightarrow> (Inr Analyze_error, w1)
           | (Some tableau_content, w1) \<Rightarrow>
               (case analyze (parse_xml tableau_content) of
                  None \<Rightarrow> (Inr Analyze_error, w1)
                | Some r \<Rightarrow> (Inr (Analysis r), w1))))"

section \<open>Notions of the specification\<close>

text \<open>
  The two notions below follow the words of the specification. They are what the loops of
  \<open>analyze_workbook\<close> are compared with.

  First-seen order: every element once, at the place of its first occurrence.
\<close>

fun first_seen :: "'a list \<Rightarrow> 'a list" where
  "first_seen [] = []"
| "first_seen (x # xs) = x # filter (\<lambda>y. y \<noteq> x) (first_seen xs)"

text \<open>
  The group of a prefix: the field names with two tokens or more whose first token is the
  prefix, in the order of the field names.
\<close>

definition prefix_group :: "string \<Rightarrow> string list \<Rightarrow> string list" where
  "prefix_group p cols = filter (\<lambda>c. 1 < length (str_split c) \<and> str_split c ! 0 = p) cols"

section \<open>The replacement loop\<close>

lemma count_scan_zero_replace: "count_scan old s = 0 \<Longrightarrow> replace_scan old new s = s"
  by (induction old s rule: count_scan.induct) (auto split: if_splits)

lemma str_count_zero_replace: "str_count old s = 0 \<Longrightarrow> str_replace old new s = s"
  by (auto simp: str_count_def str_replace_def count_scan_zero_replace split: if_splits)

lemma apply_mappings_step:
  "apply_mappings ((old, new) # mappings) st =
     apply_mappings mappings
       \<lparr>modified_content = str_replace old new (modified_content st),
        replacements_made = replacements_made st + str_count old (modified_content st),
        replacements_by_mapping =
          (if 0 < str_count old (modified_content st)
           then AList.update old (str_count old (modified_content st)) (replacements_by_mapping st)
           else replacements_by_mapping st)\<rparr>"
  by (cases st) (simp add: str_count_zero_replace Let_def)

lemma apply_mappings_append:
  "apply_mappings (ms1 @ ms2) st = apply_mappings ms2 (apply_mappings ms1 st)"
  by (induction ms1 st rule: apply_mappings.induct) (simp_all add: Let_def)

lemma apply_mappings_no_match:
  "list_all (\<lambda>(old, new). str_count old (modified_content st) = 0) ms \<Longrightarrow>
   apply_mappings ms st = st"
  by (induction ms) (auto simp: Let_def)

lemma details_empty:
  "replacements_details ms [] = map (\<lambda>(old, new). (old, new, 0)) ms"
  by (simp add: replacements_details_def dict_get_def)

lemma update_fresh: "k \<notin> fst ` set al \<Longrightarrow> AList.update k v al = al @ [(k, v)]"
  by (induction al) auto

lemma apply_mappings_lookup_other:
  "k \<notin> fst ` set ms \<Longrightarrow>
   map_of (replacements_by_mapping (apply_mappings ms st)) k = map_of (replacements_by_mapping st) k"
  by (induction ms st rule: apply_mappings.induct) (auto simp: Let_def update_conv')

text \<open>
  With pairwise distinct originals every key is stored at most once, so the dictionary and
  the total grow by the same amount.
\<close>

lemma apply_mappings_sum:
  "distinct (map fst ms) \<Longrightarrow> fst ` set (replacements_by_mapping st) \<inter> fst ` set ms = {} \<Longrightarrow>
   sum_list (map snd (replacements_by_mapping (apply_mappings ms st))) + replacements_made st
     = replacements_made (apply_mappings ms st) + sum_list (map snd (replacements_by_mapping st))"
proof (induction ms st rule: apply_mappings.induct)
  case (1 st)
  then show ?case by simp
next
  case (2 old new mappings st)
  let ?occ = "str_count old (modified_content st)"
  from "2.prems" have d: "distinct (map fst mappings)" by simp
  show ?case
  proof (cases "0 < ?occ")
    case True
    let ?st' = "\<lparr>modified_content = str_replace old new (modified_content st),
                 replacements_made = replacements_made st + ?occ,
                 replacements_by_mapping = AList.update old ?occ (replacements_by_mapping st)\<rparr>"
    from "2.prems" have fresh: "old \<notin> fst ` set (replacements_by_mapping st)" by auto
    from "2.prems" have disj: "fst ` set (replacements_by_mapping ?st') \<inter> fst ` set mappings = {}"
      by (auto simp: dom_update)
    from "2.IH"(1)[OF refl True d disj] fresh True show ?thesis
      by (simp add: Let_def update_fresh)
  next
    case False
    from "2.prems" have disj: "fst ` set (replacements_by_mapping st) \<inter> fst ` set mappings = {}"
      by auto
    from "2.IH"(2)[OF refl False d disj] False show ?thesis
      by (simp add: Let_def)
  qed
qed

lemma apply_mappings_details_sum:
  "distinct (map fst ms) \<Longrightarrow> fst ` set (replacements_by_mapping st) \<inter> fst ` set ms = {} \<Longrightarrow>
   sum_list (map (\<lambda>(old, new, n). n)
       (replacements_details ms (replacements_by_mapping (apply_mappings ms st))))
     + replacements_made st = replacements_made (apply_mappings ms st)"
proof (induction ms arbitrary: st)
  case Nil
  then show ?case by (simp add: replacements_details_def)
next
  case (Cons m ms)
  obtain old new where m: "m = (old, new)" by (cases m)
  let ?occ = "str_count old (modified_content st)"
  let ?st' = "\<lparr>modified_content = str_replace old new (modified_content st),
               replacements_made = replacements_made st + ?occ,
               replacements_by_mapping =
                 (if 0 < ?occ then AList.update old ?occ (replacements_by_mapping st)
                  else replacements_by_mapping st)\<rparr>"
  have step: "apply_mappings (m # ms) st = apply_mappings ms ?st'"
    unfolding m by (rule apply_mappings_step)
  from Cons.prems m have fresh: "old \<notin> fst ` set (replacements_by_mapping st)" by auto
  from Cons.prems m have later: "old \<notin> fst ` set ms" by auto
  from Cons.prems have d: "distinct (map fst ms)" by simp
  from Cons.prems m have disj: "fst ` set (replacements_by_mapping ?st') \<inter> fst ` set ms = {}"
    by (auto simp: dom_update)
  have "map_of (replacements_by_mapping (apply_mappings ms ?st')) old
          = map_of (replacements_by_mapping ?st') old"
    using later by (rule apply_mappings_lookup_other)
  moreover have "map_of (replacements_by_mapping st) old = None"
    using fresh by (simp add: map_of_eq_None_iff)
  ultimately have here: "dict_get (replacements_by_mapping (apply_mappings ms ?st')) old 0 = ?occ"
    by (simp add: dict_get_def update_conv')
  from Cons.IH[OF d disj] here show ?case
    unfolding step by (simp add: m replacements_details_def)
qed

lemma load_mappings_filter:
  "load_mappings rows acc =
     acc @ map (\<lambda>row. (str_strip (row ! 0), str_strip (row ! 1))) (filter (\<lambda>row. 2 \<le> length row) rows)"
  by (induction rows arbitrary: acc) simp_all

text \<open>What the tool does when every file is there and the mapping file has a usable row.\<close>

lemma remap_dimensions_runs:
  assumes "arguments ''mapping_file_path'' = Some mapping_file_path"
    and "arguments ''workbook_file_path'' = Some workbook_file_path"
    and "arguments ''output_file_path'' = Some output_file_path"
    and "files w mapping_file_path = Some mapping_text"
    and "load_mappings (csv_reader mapping_text) [] = mappings"
    and "mappings \<noteq> []"
    and "files w workbook_file_path = Some tableau_content"
    and "output_file_path \<notin> unwritable w"
    and "apply_mappings mappings (init_state tableau_content) = st"
  shows "remap_dimensions csv_reader arguments w =
           (Inr (Remapped (replacements_made st) (length mappings)
                   (replacements_details mappings (replacements_by_mapping st))
                   (length (replacements_by_mapping st)) output_file_path),
            w\<lparr>files := (files w)(output_file_path \<mapsto> modified_content st),
              opened := opened w @ [mapping_file_path, workbook_file_path]\<rparr>)"
  using assms by (simp add: remap_dimensions_def read_file_def write_file_def Let_def)

section \<open>Claims about the replacement loop\<close>

text \<open>
  C1, as amended. The rules are processed in file order over one evolving text. For each
  rule the occurrences of \<open>original\<close> are counted in the current text, every occurrence is
  replaced, and the count is added to the total; the count is stored under the rule's
  \<open>original\<close> key when it is positive, and the report is left as it is when the count is
  zero. Processing \<open>ms1 @ ms2\<close> is processing \<open>ms1\<close> and then \<open>ms2\<close> on the result. For the
  rules \<open>[("A","B"),("B","C")]\<close> and the text \<open>"A"\<close> the rewritten text is \<open>"C"\<close> and the
  report is \<open>{"A":1,"B":1}\<close>.
\<close>

theorem apply_mappings_in_order:
  "apply_mappings [] st = st
   \<and> apply_mappings ((old, new) # mappings) st =
       apply_mappings mappings
         \<lparr>modified_content = str_replace old new (modified_content st),
          replacements_made = replacements_made st + str_count old (modified_content st),
          replacements_by_mapping =
            (if 0 < str_count old (modified_content st)
             then AList.update old (str_count old (modified_content st))
                    (replacements_by_mapping st)
             else replacements_by_mapping st)\<rparr>
   \<and> apply_mappings (ms1 @ ms2) st = apply_mappings ms2 (apply_mappings ms1 st)
   \<and> apply_mappings [(''A'', ''B''), (''B'', ''C'')] (init_state ''A'') =
       \<lparr>modified_content = ''C'', replacements_made = 2,
        replacements_by_mapping = [(''A'', 1), (''B'', 1)]\<rparr>"
proof -
  have "apply_mappings [(''A'', ''B''), (''B'', ''C'')] (init_state ''A'') =
       \<lparr>modified_content = ''C'', replacements_made = 2,
        replacements_by_mapping = [(''A'', 1), (''B'', 1)]\<rparr>"
    by (simp add: init_state_def str_count_def str_replace_def str_startswith_def)
  then show ?thesis
    using apply_mappings_step[of old new mappings st] apply_mappings_append[of ms1 ms2 st]
    by simp
qed

text \<open>
  C1 as it is written fails: a count of zero is not recorded. With the rules
  \<open>[("A","B"),("A","C")]\<close> and the text \<open>"A"\<close>, the second rule finds no \<open>"A"\<close> in the current
  text \<open>"B"\<close>, and the report still holds 1 under \<open>"A"\<close>.
\<close>

theorem zero_count_is_not_recorded:
  "modified_content (apply_mappings [(''A'', ''B'')] (init_state ''A'')) = ''B''
   \<and> str_count ''A'' ''B'' = 0
   \<and> replacements_by_mapping (apply_mappings [(''A'', ''B''), (''A'', ''C'')] (init_state ''A''))
       = [(''A'', 1)]
   \<and> replacements_details [(''A'', ''B''), (''A'', ''C'')] [(''A'', 1)]
       = [(''A'', ''B'', 1), (''A'', ''C'', 1)]
   \<and> dict_get (replacements_by_mapping
                 (apply_mappings [(''A'', ''B''), (''A'', ''C'')] (init_state ''A''))) ''A'' 0
       \<noteq> str_count ''A'' (modified_content (apply_mappings [(''A'', ''B'')] (init_state ''A'')))"
  by (simp add: init_state_def str_count_def str_replace_def str_startswith_def
      replacements_details_def dict_get_def)

text \<open>
  C2, as amended. A rule whose \<open>original\<close> does not occur in the current text changes
  nothing: the text, the total and the report stay as they are, and no key is added. When
  no rule matches, the loop ends in the state it started in, the tool succeeds, writes the
  input text to the output file, reports a total of 0 and an empty dictionary, and its
  replacement details list every rule with the count 0.
\<close>

theorem unmatched_rules_change_nothing:
  "(str_count old (modified_content st) = 0 \<longrightarrow>
      apply_mappings ((old, new) # mappings) st = apply_mappings mappings st)
   \<and> (list_all (\<lambda>(old, new). str_count old tableau_content = 0) ms \<longrightarrow>
        apply_mappings ms (init_state tableau_content) = init_state tableau_content
        \<and> replacements_details ms (replacements_by_mapping (init_state tableau_content))
            = map (\<lambda>(old, new). (old, new, 0)) ms)
   \<and> (arguments ''mapping_file_path'' = Some mapping_file_path
        \<and> arguments ''workbook_file_path'' = Some workbook_file_path
        \<and> arguments ''output_file_path'' = Some output_file_path
        \<and> files w mapping_file_path = Some mapping_text
        \<and> load_mappings (csv_reader mapping_text) [] = ms \<and> ms \<noteq> []
        \<and> files w workbook_file_path = Some tableau_content
        \<and> output_file_path \<notin> unwritable w
        \<and> list_all (\<lambda>(old, new). str_count old tableau_content = 0) ms \<longrightarrow>
        remap_dimensions csv_reader arguments w =
          (Inr (Remapped 0 (length ms) (map (\<lambda>(old, new). (old, new, 0)) ms) 0 output_file_path),
           w\<lparr>files := (files w)(output_file_path \<mapsto> tableau_content),
             opened := opened w @ [mapping_file_path, workbook_file_path]\<rparr>))"
proof -
  have none: "apply_mappings ms (init_state tableau_content) = init_state tableau_content"
    if "list_all (\<lambda>(old, new). str_count old tableau_content = 0) ms"
    using that apply_mappings_no_match[of "init_state tableau_content" ms]
    by (simp add: init_state_def)
  have one: "apply_mappings ((old, new) # mappings) st = apply_mappings mappings st"
    if "str_count old (modified_content st) = 0"
    using that by (simp add: Let_def)
  have tool: "remap_dimensions csv_reader arguments w =
          (Inr (Remapped 0 (length ms) (map (\<lambda>(old, new). (old, new, 0)) ms) 0 output_file_path),
           w\<lparr>files := (files w)(output_file_path \<mapsto> tableau_content),
             opened := opened w @ [mapping_file_path, workbook_file_path]\<rparr>)"
    if a: "arguments ''mapping_file_path'' = Some mapping_file_path"
      "arguments ''workbook_file_path'' = Some workbook_file_path"
      "arguments ''output_file_path'' = Some output_file_path"
      "files w mapping_file_path = Some mapping_text"
      "load_mappings (csv_reader mapping_text) [] = ms" "ms \<noteq> []"
      "files w workbook_file_path = Some tableau_content"
      "output_file_path \<notin> unwritable w"
      and z: "list_all (\<lambda>(old, new). str_count old tableau_content = 0) ms"
    using a none[OF z]
      remap_dimensions_runs[where arguments = arguments and w = w and csv_reader = csv_reader
        and mappings = ms and tableau_content = tableau_content
        and st = "init_state tableau_content" and mapping_text = mapping_text]
    by (simp add: init_state_def details_empty)
  from none one tool show ?thesis
    by (simp add: init_state_def details_empty)
qed

theorem unmatched_rules_change_nothing_witness:
  "str_count ''Foo'' ''Baz'' = 0
   \<and> apply_mappings [(''Foo'', ''Bar'')] (init_state ''Baz'') = init_state ''Baz''
   \<and> fst (remap_dimensions (\<lambda>t. [[''Foo'', '' Bar'']])
        [''mapping_file_path'' \<mapsto> ''m.csv'', ''workbook_file_path'' \<mapsto> ''b.twb'',
         ''output_file_path'' \<mapsto> ''out/b.twb'']
        \<lparr>files = [''m.csv'' \<mapsto> ''Foo, Bar'', ''b.twb'' \<mapsto> ''Baz''], unwritable = {}, opened = []\<rparr>)
      = Inr (Remapped 0 1 [(''Foo'', ''Bar'', 0)] 0 ''out/b.twb'')"
  using unmatched_rules_change_nothing[of "''Foo''" "init_state ''Baz''" "''Bar''" "[]"
      "''Baz''" "[(''Foo'', ''Bar'')]"
      "[''mapping_file_path'' \<mapsto> ''m.csv'', ''workbook_file_path'' \<mapsto> ''b.twb'',
         ''output_file_path'' \<mapsto> ''out/b.twb'']"
      "''m.csv''" "''b.twb''" "''out/b.twb''"
      "\<lparr>files = [''m.csv'' \<mapsto> ''Foo, Bar'', ''b.twb'' \<mapsto> ''Baz''], unwritable = {}, opened = []\<rparr>"
      "''Foo, Bar''" "\<lambda>t. [[''Foo'', '' Bar'']]"]
  by (simp add: init_state_def str_count_def str_startswith_def str_strip_def is_space_def)

text \<open>
  C2 as it is written fails: a rule that matches nothing is not made a key of the report.
  With the rules \<open>[("X","Y"),("X","Z"),("Foo","Bar")]\<close> and the text \<open>"X"\<close>, the second and
  the third rule find nothing in the current text \<open>"Y"\<close>; the dictionary is \<open>{"X":1}\<close>,
  without \<open>"Foo"\<close>, and the replacement details show the second rule with the count 1.
\<close>

theorem unmatched_rule_is_no_key:
  "modified_content (apply_mappings [(''X'', ''Y'')] (init_state ''X'')) = ''Y''
   \<and> str_count ''X'' ''Y'' = 0 \<and> str_count ''Foo'' ''Y'' = 0
   \<and> replacements_by_mapping
        (apply_mappings [(''X'', ''Y''), (''X'', ''Z''), (''Foo'', ''Bar'')] (init_state ''X''))
       = [(''X'', 1)]
   \<and> ''Foo'' \<notin> fst ` set (replacements_by_mapping
        (apply_mappings [(''X'', ''Y''), (''X'', ''Z''), (''Foo'', ''Bar'')] (init_state ''X'')))
   \<and> replacements_details [(''X'', ''Y''), (''X'', ''Z''), (''Foo'', ''Bar'')]
        (replacements_by_mapping
          (apply_mappings [(''X'', ''Y''), (''X'', ''Z''), (''Foo'', ''Bar'')] (init_state ''X'')))
       = [(''X'', ''Y'', 1), (''X'', ''Z'', 1), (''Foo'', ''Bar'', 0)]"
  by (simp add: init_state_def str_count_def str_replace_def str_startswith_def
      replacements_details_def dict_get_def)

text \<open>
  C3, as amended. When no two rules share the same \<open>original\<close>, the counts of the report
  add up to the total number of replacements, and so do the counts of the replacement
  details.
\<close>

theorem distinct_originals_sum:
  assumes "distinct (map fst mappings)"
  shows "sum_list (map snd (replacements_by_mapping
             (apply_mappings mappings (init_state tableau_content))))
           = replacements_made (apply_mappings mappings (init_state tableau_content))
         \<and> sum_list (map (\<lambda>(old, new, n). n)
               (replacements_details mappings
                  (replacements_by_mapping (apply_mappings mappings (init_state tableau_content)))))
           = replacements_made (apply_mappings mappings (init_state tableau_content))"
  using apply_mappings_sum[of mappings "init_state tableau_content"]
    apply_mappings_details_sum[of mappings "init_state tableau_content"] assms
  by (simp add: init_state_def)

theorem distinct_originals_sum_witness:
  "distinct (map fst [(''A'', ''B''), (''B'', ''C'')])
   \<and> sum_list (map snd (replacements_by_mapping
         (apply_mappings [(''A'', ''B''), (''B'', ''C'')] (init_state ''A'')))) = 2
   \<and> replacements_made (apply_mappings [(''A'', ''B''), (''B'', ''C'')] (init_state ''A'')) = 2"
  using distinct_originals_sum[of "[(''A'', ''B''), (''B'', ''C'')]" "''A''"]
  by (simp add: init_state_def str_count_def str_replace_def str_startswith_def)

text \<open>
  C3 as it is written fails when two rules share an \<open>original\<close> and the later one matches
  again: its count takes the place of the earlier one in the dictionary. With the rules
  \<open>[("A","AA"),("A","B")]\<close> and the text \<open>"A"\<close> the total is 3, the report is \<open>{"A":2}\<close>
  and the replacement details show 2 for both rules.
\<close>

theorem repeated_original_sum_differs:
  "replacements_made (apply_mappings [(''A'', ''AA''), (''A'', ''B'')] (init_state ''A'')) = 3
   \<and> replacements_by_mapping (apply_mappings [(''A'', ''AA''), (''A'', ''B'')] (init_state ''A''))
       = [(''A'', 2)]
   \<and> replacements_details [(''A'', ''AA''), (''A'', ''B'')] [(''A'', 2)]
       = [(''A'', ''AA'', 2), (''A'', ''B'', 2)]
   \<and> sum_list (map snd (replacements_by_mapping
         (apply_mappings [(''A'', ''AA''), (''A'', ''B'')] (init_state ''A''))))
       \<noteq> replacements_made (apply_mappings [(''A'', ''AA''), (''A'', ''B'')] (init_state ''A''))"
  by (simp add: init_state_def str_count_def str_replace_def str_startswith_def
      replacements_details_def dict_get_def)

text \<open>
  C4. When the mapping file gives no usable rule, \<open>remap_dimensions\<close> returns "Error:
  Mapping file is empty" whatever the workbook is: only the mapping file has been opened,
  and no file has been written.
\<close>

theorem empty_mapping_set_is_an_error:
  assumes "arguments ''mapping_file_path'' = Some mapping_file_path"
    and "arguments ''workbook_file_path'' = Some workbook_file_path"
    and "arguments ''output_file_path'' = Some output_file_path"
    and "files w mapping_file_path = Some mapping_text"
    and "load_mappings (csv_reader mapping_text) [] = []"
  shows "remap_dimensions csv_reader arguments w =
           (Inr Mapping_file_empty, w\<lparr>opened := opened w @ [mapping_file_path]\<rparr>)
         \<and> files (snd (remap_dimensions csv_reader arguments w)) = files w"
  using assms by (simp add: remap_dimensions_def read_file_def)

theorem empty_mapping_set_is_an_error_witness:
  "load_mappings [[''only one column'']] [] = []
   \<and> remap_dimensions (\<lambda>t. [[''only one column'']])
        [''mapping_file_path'' \<mapsto> ''m.csv'', ''workbook_file_path'' \<mapsto> ''b.twb'',
         ''output_file_path'' \<mapsto> ''out/b.twb'']
        \<lparr>files = [''m.csv'' \<mapsto> ''only one column'', ''b.twb'' \<mapsto> ''Baz''],
         unwritable = {}, opened = []\<rparr>
      = (Inr Mapping_file_empty,
         \<lparr>files = [''m.csv'' \<mapsto> ''only one column'', ''b.twb'' \<mapsto> ''Baz''],
          unwritable = {}, opened = [''m.csv'']\<rparr>)"
  using empty_mapping_set_is_an_error[of
      "[''mapping_file_path'' \<mapsto> ''m.csv'', ''workbook_file_path'' \<mapsto> ''b.twb'',
         ''output_file_path'' \<mapsto> ''out/b.twb'']"
      "''m.csv''" "''b.twb''" "''out/b.twb''"
      "\<lparr>files = [''m.csv'' \<mapsto> ''only one column'', ''b.twb'' \<mapsto> ''Baz''],
         unwritable = {}, opened = []\<rparr>"
      "''only one column''" "\<lambda>t. [[''only one column'']]"]
  by simp

section \<open>Loading the mapping file\<close>

lemma validate_rows_short:
  "list_all (\<lambda>row. 2 \<le> length row) good \<Longrightarrow> length short < 2 \<Longrightarrow>
   validate_rows i (good @ short # rest) acc = Inl (i + length good + 1)"
  by (induction good arbitrary: i acc) simp_all

lemma validate_rows_Inr:
  "validate_rows i rows acc = Inr ms \<Longrightarrow>
   ms = acc @ map (\<lambda>row. (str_strip (row ! 0), str_strip (row ! 1))) rows"
proof (induction rows arbitrary: i acc)
  case Nil
  then show ?case by simp
next
  case (Cons row rows)
  from Cons.prems have "2 \<le> length row" by (simp split: if_splits)
  with Cons.prems Cons.IH[of "i + 1" "acc @ [(str_strip (row ! 0), str_strip (row ! 1))]"]
  show ?case by simp
qed

lemma load_mappings_of_filter:
  "load_mappings (filter (\<lambda>row. 2 \<le> length row) rows) acc = load_mappings rows acc"
  by (induction rows arbitrary: acc) simp_all

lemma remap_dimensions_skips_short_rows:
  "remap_dimensions csv_reader arguments w =
     remap_dimensions (\<lambda>t. filter (\<lambda>row. 2 \<le> length row) (csv_reader t)) arguments w"
  unfolding remap_dimensions_def load_mappings_of_filter by (rule refl)

lemma last_dropWhile: "dropWhile P xs \<noteq> [] \<Longrightarrow> last (dropWhile P xs) = last xs"
  by (induction xs) (auto split: if_splits)

lemma str_strip_trimmed:
  "str_strip s = [] \<or> (\<not> is_space (hd (str_strip s)) \<and> \<not> is_space (last (str_strip s)))"
proof (cases "str_strip s = []")
  case True
  then show ?thesis by simp
next
  case False
  let ?t = "dropWhile is_space s"
  let ?u = "dropWhile is_space (rev ?t)"
  from False have u: "?u \<noteq> []" by (simp add: str_strip_def)
  then have t: "?t \<noteq> []" by (auto dest: set_dropWhileD)
  have "\<not> is_space (hd ?u)" using u by (rule hd_dropWhile)
  then have l: "\<not> is_space (last (str_strip s))" using u by (simp add: str_strip_def last_rev)
  have "last ?u = last (rev ?t)" using u by (rule last_dropWhile)
  also have "\<dots> = hd ?t" using t by (simp add: last_rev)
  finally have "hd (str_strip s) = hd ?t" using u by (simp add: str_strip_def hd_rev)
  moreover have "\<not> is_space (hd ?t)" using t by (rule hd_dropWhile)
  ultimately show ?thesis using l by simp
qed

text \<open>Lower-casing the paths of the examples.\<close>

lemma lower_map_CSV: "str_lower ''map.CSV'' = ''map.csv''"
  by code_simp

lemma lower_BOOK_TWB: "str_lower ''BOOK.TWB'' = ''book.twb''"
  by code_simp

lemma lower_Map_Csv: "str_lower ''Map.Csv'' = ''map.csv''"
  by code_simp

lemma lower_notes_txt: "str_lower ''notes.txt'' = ''notes.txt''"
  by code_simp

text \<open>
  C5. When the first row with fewer than two columns comes after the rows \<open>good\<close>, the
  validation loop stops there with the number \<open>length good + 1\<close>, counted from 1, and
  \<open>validate_mapping_file\<close> answers "Error: Line (length good + 1) does not have at least two
  columns". The loop of \<open>remap_dimensions\<close> passes over that row, as over every row with
  fewer than two columns: it gives the stripped pairs of the other rows, and the tool
  behaves as it does on the file without the short rows.
\<close>

theorem short_row_strict_and_lenient:
  assumes "list_all (\<lambda>row. 2 \<le> length row) good" and "length short < 2"
  shows "validate_rows 0 (good @ short # rest) [] = Inl (length good + 1)
    \<and> (arguments ''mapping_file_path'' = Some mapping_file_path
        \<and> str_endswith (str_lower mapping_file_path) ''.csv''
        \<and> files w mapping_file_path = Some mapping_text
        \<and> csv_reader mapping_text = good @ short # rest \<longrightarrow>
        validate_mapping_file csv_reader arguments w =
          (Inr (Line_too_short (length good + 1)), w\<lparr>opened := opened w @ [mapping_file_path]\<rparr>))
    \<and> load_mappings (good @ short # rest) [] = load_mappings (good @ rest) []
    \<and> load_mappings rows [] =
        map (\<lambda>row. (str_strip (row ! 0), str_strip (row ! 1))) (filter (\<lambda>row. 2 \<le> length row) rows)
    \<and> remap_dimensions reader args w' =
        remap_dimensions (\<lambda>t. filter (\<lambda>row. 2 \<le> length row) (reader t)) args w'"
proof -
  have v: "validate_rows 0 (good @ short # rest) [] = Inl (length good + 1)"
    using validate_rows_short[OF assms, of 0 rest "[]"] by simp
  have l: "load_mappings (good @ short # rest) [] = load_mappings (good @ rest) []"
    using assms(2) by (simp add: load_mappings_filter)
  show ?thesis
    using v l load_mappings_filter[of rows "[]"] remap_dimensions_skips_short_rows[of reader args w']
    by (simp add: validate_mapping_file_def read_file_def)
qed

theorem short_row_strict_and_lenient_witness:
  "list_all (\<lambda>row. 2 \<le> length row) [[''a'', ''b''], [''c'', ''d'']] \<and> length [''x''] < 2
   \<and> validate_rows 0 [[''a'', ''b''], [''c'', ''d''], [''x''], [''e'', ''f'']] [] = Inl 3
   \<and> validate_mapping_file (\<lambda>t. [[''a'', ''b''], [''c'', ''d''], [''x''], [''e'', ''f'']])
        [''mapping_file_path'' \<mapsto> ''map.CSV'']
        \<lparr>files = [''map.CSV'' \<mapsto> ''text''], unwritable = {}, opened = []\<rparr>
      = (Inr (Line_too_short 3),
         \<lparr>files = [''map.CSV'' \<mapsto> ''text''], unwritable = {}, opened = [''map.CSV'']\<rparr>)
   \<and> load_mappings [[''a'', ''b''], [''c'', ''d''], [''x''], [''e'', ''f'']] []
      = [(''a'', ''b''), (''c'', ''d''), (''e'', ''f'')]"
  using short_row_strict_and_lenient[of "[[''a'', ''b''], [''c'', ''d'']]" "[''x'']"
      "[[''e'', ''f'']]" "[''mapping_file_path'' \<mapsto> ''map.CSV'']" "''map.CSV''"
      "\<lparr>files = [''map.CSV'' \<mapsto> ''text''], unwritable = {}, opened = []\<rparr>" "''text''"
      "\<lambda>t. [[''a'', ''b''], [''c'', ''d''], [''x''], [''e'', ''f'']]"]
  using lower_map_CSV by (simp add: str_strip_def is_space_def str_endswith_def)

text \<open>
  C9, as amended. In every rule that either loader produces, \<open>original\<close> and
  \<open>replacement\<close> are trimmed: each is empty or neither starts nor ends with whitespace.
\<close>

theorem loaded_rules_are_trimmed:
  "(validate_rows 0 rows [] = Inr mappings \<longrightarrow>
      list_all (\<lambda>(original, replacement).
          (original = [] \<or> (\<not> is_space (hd original) \<and> \<not> is_space (last original)))
        \<and> (replacement = [] \<or> (\<not> is_space (hd replacement) \<and> \<not> is_space (last replacement))))
        mappings)
   \<and> list_all (\<lambda>(original, replacement).
          (original = [] \<or> (\<not> is_space (hd original) \<and> \<not> is_space (last original)))
        \<and> (replacement = [] \<or> (\<not> is_space (hd replacement) \<and> \<not> is_space (last replacement))))
        (load_mappings rows [])"
proof -
  let ?trimmed = "\<lambda>(original, replacement).
          (original = [] \<or> (\<not> is_space (hd original) \<and> \<not> is_space (last original)))
        \<and> (replacement = [] \<or> (\<not> is_space (hd replacement) \<and> \<not> is_space (last replacement)))"
  have pair: "?trimmed (str_strip a, str_strip b)" for a b
    using str_strip_trimmed[of a] str_strip_trimmed[of b] by simp
  have all: "list_all ?trimmed (map (\<lambda>row. (str_strip (row ! 0), str_strip (row ! 1))) xs)"
    for xs :: "string list list"
  proof (induction xs)
    case Nil
    show ?case by simp
  next
    case (Cons r xs)
    with pair[of "r ! 0" "r ! 1"] show ?case by simp
  qed
  have "list_all ?trimmed mappings" if "validate_rows 0 rows [] = Inr mappings"
    using validate_rows_Inr[OF that] all[of rows] by simp
  moreover have "list_all ?trimmed (load_mappings rows [])"
    using all[of "filter (\<lambda>row. 2 \<le> length row) rows"] by (simp add: load_mappings_filter)
  ultimately show ?thesis by blast
qed

theorem loaded_rules_are_trimmed_witness:
  "validate_rows 0 [['' First name '', '' name First'']] [] = Inr [(''First name'', ''name First'')]
   \<and> load_mappings [['' First name '', '' name First'']] [] = [(''First name'', ''name First'')]
   \<and> \<not> is_space (hd ''First name'') \<and> \<not> is_space (last ''First name'')"
  using loaded_rules_are_trimmed[of "[['' First name '', '' name First'']]"
      "[(''First name'', ''name First'')]"]
  by (simp add: str_strip_def is_space_def)

text \<open>
  C9 as it is written fails: no loader checks that \<open>original\<close> is not empty. The row
  \<open>[" ", "x"]\<close> gives the rule \<open>("", "x")\<close> in both.
\<close>

theorem original_may_be_empty:
  "load_mappings [['' '', ''x'']] [] = [('''', ''x'')]
   \<and> validate_rows 0 [['' '', ''x'']] [] = Inr [('''', ''x'')]"
  by (simp add: str_strip_def is_space_def)

section \<open>The file extension checks\<close>

text \<open>
  C10. \<open>validate_tableau_workbook\<close> looks at the lower-cased path: when it does not end with
  \<open>.twb\<close> the tool returns "Error: File must be a Tableau workbook (.twb) file. Got (path)"
  as a text, raises nothing and leaves the world as it is, so the file is not opened; when
  it does, the tool goes on and opens the file. \<open>validate_mapping_file\<close> does the same
  with \<open>.csv\<close>. The path \<open>BOOK.TWB\<close> passes the check.
\<close>

theorem extension_checks_ignore_case:
  "(arguments ''workbook_file_path'' = Some p \<and> \<not> str_endswith (str_lower p) ''.twb'' \<longrightarrow>
      validate_tableau_workbook parse_xml arguments w = (Inr (Not_twb p), w))
   \<and> (arguments ''workbook_file_path'' = Some p \<and> str_endswith (str_lower p) ''.twb'' \<longrightarrow>
      fst (validate_tableau_workbook parse_xml arguments w) \<noteq> Inr (Not_twb p)
      \<and> snd (validate_tableau_workbook parse_xml arguments w) = w\<lparr>opened := opened w @ [p]\<rparr>)
   \<and> (arguments ''mapping_file_path'' = Some p \<and> \<not> str_endswith (str_lower p) ''.csv'' \<longrightarrow>
      validate_mapping_file csv_reader arguments w = (Inr (Not_csv p), w))
   \<and> (arguments ''mapping_file_path'' = Some p \<and> str_endswith (str_lower p) ''.csv'' \<longrightarrow>
      fst (validate_mapping_file csv_reader arguments w) \<noteq> Inr (Not_csv p)
      \<and> snd (validate_mapping_file csv_reader arguments w) = w\<lparr>opened := opened w @ [p]\<rparr>)
   \<and> str_endswith (str_lower ''BOOK.TWB'') ''.twb''"
proof -
  have "str_endswith (str_lower ''BOOK.TWB'') ''.twb''"
    using lower_BOOK_TWB by (simp add: str_endswith_def)
  then show ?thesis
    by (auto simp: validate_tableau_workbook_def validate_mapping_file_def read_file_def Let_def
        split: option.splits list.splits sum.splits)
qed

theorem extension_checks_ignore_case_witness:
  "str_endswith (str_lower ''Map.Csv'') ''.csv''
   \<and> \<not> str_endswith (str_lower ''notes.txt'') ''.twb''
   \<and> validate_tableau_workbook (\<lambda>t. []) [''workbook_file_path'' \<mapsto> ''notes.txt'']
        \<lparr>files = [''notes.txt'' \<mapsto> ''text''], unwritable = {}, opened = []\<rparr>
      = (Inr (Not_twb ''notes.txt''),
         \<lparr>files = [''notes.txt'' \<mapsto> ''text''], unwritable = {}, opened = []\<rparr>)
   \<and> snd (validate_mapping_file (\<lambda>t. []) [''mapping_file_path'' \<mapsto> ''Map.Csv'']
        \<lparr>files = [''Map.Csv'' \<mapsto> ''text''], unwritable = {}, opened = []\<rparr>)
      = \<lparr>files = [''Map.Csv'' \<mapsto> ''text''], unwritable = {}, opened = [''Map.Csv'']\<rparr>"
  using extension_checks_ignore_case[of "[''workbook_file_path'' \<mapsto> ''notes.txt'']"
      "''notes.txt''" "\<lambda>t. []"
      "\<lparr>files = [''notes.txt'' \<mapsto> ''text''], unwritable = {}, opened = []\<rparr>" "\<lambda>t. []"]
    extension_checks_ignore_case[of "[''mapping_file_path'' \<mapsto> ''Map.Csv'']"
      "''Map.Csv''" "\<lambda>t. []"
      "\<lparr>files = [''Map.Csv'' \<mapsto> ''text''], unwritable = {}, opened = []\<rparr>" "\<lambda>t. []"]
  using lower_map_CSV lower_Map_Csv lower_notes_txt by (simp add: str_endswith_def)

section \<open>The analyzer\<close>

lemma set_first_seen: "set (first_seen xs) = set xs"
  by (induction xs) auto

lemma distinct_first_seen: "distinct (first_seen xs)"
  by (induction xs) (auto simp: set_first_seen)

lemma collect_worksheets_filter:
  "collect_worksheets ws acc =
     acc @ filter (\<lambda>name. name \<noteq> []) (map (\<lambda>t. tag_get t ''name'' []) ws)"
  by (induction ws arbitrary: acc) (simp_all add: Let_def)

lemma collect_columns_first_seen:
  "collect_columns cs acc =
     acc @ filter (\<lambda>name. name \<notin> set acc)
             (first_seen (filter (\<lambda>name. name \<noteq> []) (map (\<lambda>t. tag_get t ''name'' []) cs)))"
proof (induction cs arbitrary: acc)
  case Nil
  then show ?case by simp
next
  case (Cons c cs)
  let ?n = "tag_get c ''name'' []"
  let ?rest = "first_seen (filter (\<lambda>name. name \<noteq> []) (map (\<lambda>t. tag_get t ''name'' []) cs))"
  show ?case
  proof (cases "?n \<noteq> [] \<and> ?n \<notin> set acc")
    case True
    have "filter (\<lambda>name. name \<notin> set (acc @ [?n])) ?rest
            = filter (\<lambda>name. name \<notin> set acc) (filter (\<lambda>y. y \<noteq> ?n) ?rest)"
      by (auto intro: filter_cong)
    with True Cons.IH[of "acc @ [?n]"] show ?thesis by (simp add: Let_def)
  next
    case False
    show ?thesis
    proof (cases "?n = []")
      case True
      with Cons.IH[of acc] show ?thesis by (simp add: Let_def)
    next
      case nonempty: False
      with False have mem: "?n \<in> set acc" by simp
      have "filter (\<lambda>name. name \<notin> set acc) (filter (\<lambda>y. y \<noteq> ?n) ?rest)
              = filter (\<lambda>name. name \<notin> set acc) ?rest"
        using mem by (auto intro: filter_cong)
      with nonempty mem Cons.IH[of acc] show ?thesis by (simp add: Let_def)
    qed
  qed
qed


lemma detect_prefixes_keys:
  "distinct (map fst prefixed) \<Longrightarrow> distinct (map fst (detect_prefixes cols prefixed))"
  by (induction cols arbitrary: prefixed) (auto simp: Let_def distinct_update split: option.splits)

lemma detect_prefixes_lookup:
  "map_of (detect_prefixes cols prefixed) p =
     (case map_of prefixed p of
        None \<Rightarrow> (if prefix_group p cols = [] then None else Some (prefix_group p cols))
      | Some g \<Rightarrow> Some (g @ prefix_group p cols))"
proof (induction cols arbitrary: prefixed)
  case Nil
  then show ?case by (simp add: prefix_group_def split: option.splits)
next
  case (Cons c cols)
  show ?case
    by (cases "map_of prefixed (str_split c ! 0)")
       (auto simp: Let_def Cons.IH update_conv' prefix_group_def split: option.splits)
qed


lemma displayed_patterns_iff:
  "(p, g) \<in> set (displayed_patterns (detect_prefixes cols [])) \<longleftrightarrow>
     g = prefix_group p cols \<and> 2 \<le> length g"
proof -
  have d: "distinct (map fst (detect_prefixes cols []))"
    by (rule detect_prefixes_keys) simp
  have "(p, g) \<in> set (detect_prefixes cols []) \<longleftrightarrow> map_of (detect_prefixes cols []) p = Some g"
    using d by simp
  also have "\<dots> \<longleftrightarrow> prefix_group p cols \<noteq> [] \<and> g = prefix_group p cols"
    by (auto simp: detect_prefixes_lookup)
  finally show ?thesis
    by (auto simp: displayed_patterns_def)
qed

text \<open>
  C6, as amended. The worksheets of the analyzer are an ordered sequence: every
  \<open>worksheet\<close> tag with a non-empty \<open>name\<close> attribute contributes that name, in document
  order, and a name that occurs twice is listed twice.
\<close>

theorem worksheets_keep_duplicates:
  "collect_worksheets (find_all ''worksheet'' soup) [] =
     filter (\<lambda>name. name \<noteq> []) (map (\<lambda>t. tag_get t ''name'' []) (find_all ''worksheet'' soup))
   \<and> (analyze soup = Some r \<longrightarrow>
        found_worksheets r =
          filter (\<lambda>name. name \<noteq> []) (map (\<lambda>t. tag_get t ''name'' []) (find_all ''worksheet'' soup)))"
  by (auto simp: analyze_def Let_def collect_worksheets_filter split: list.splits)

theorem worksheets_keep_duplicates_witness:
  "analyze [Node ''workbook'' [(''version'', ''18.1'')]
             [Node ''worksheet'' [(''name'', ''Sales'')] [], Node ''worksheet'' [] [],
              Node ''worksheet'' [(''name'', ''Costs'')] []]]
     = Some \<lparr>workbook_version = ''18.1'', found_columns = [], found_formulas = [],
             found_worksheets = [''Sales'', ''Costs''], found_prefixes = [],
             shown_patterns = []\<rparr>
   \<and> filter (\<lambda>name. name \<noteq> []) (map (\<lambda>t. tag_get t ''name'' [])
        (find_all ''worksheet'' [Node ''workbook'' [(''version'', ''18.1'')]
             [Node ''worksheet'' [(''name'', ''Sales'')] [], Node ''worksheet'' [] [],
              Node ''worksheet'' [(''name'', ''Costs'')] []]])) = [''Sales'', ''Costs'']"
  using worksheets_keep_duplicates[of
      "[Node ''workbook'' [(''version'', ''18.1'')]
             [Node ''worksheet'' [(''name'', ''Sales'')] [], Node ''worksheet'' [] [],
              Node ''worksheet'' [(''name'', ''Costs'')] []]]"
      "\<lparr>workbook_version = ''18.1'', found_columns = [], found_formulas = [],
             found_worksheets = [''Sales'', ''Costs''], found_prefixes = [],
             shown_patterns = []\<rparr>"]
  by (simp add: analyze_def find_all_def tag_get_def displayed_patterns_def)

text \<open>
  C6 as it is written fails: the loop over the \<open>worksheet\<close> tags does not test whether the
  name is already there. Two tags named \<open>Sheet 1\<close> give the name twice.
\<close>

theorem duplicate_worksheet_listed_twice:
  "collect_worksheets
     (find_all ''worksheet''
        [Node ''workbook'' []
           [Node ''worksheet'' [(''name'', ''Sheet 1'')] [],
            Node ''worksheet'' [(''name'', ''Sheet 1'')] []]]) []
     = [''Sheet 1'', ''Sheet 1'']
   \<and> map_option found_worksheets
        (analyze [Node ''workbook'' []
           [Node ''worksheet'' [(''name'', ''Sheet 1'')] [],
            Node ''worksheet'' [(''name'', ''Sheet 1'')] []]])
     = Some [''Sheet 1'', ''Sheet 1'']
   \<and> \<not> distinct [''Sheet 1'', ''Sheet 1'']"
  by (simp add: analyze_def find_all_def tag_get_def displayed_patterns_def Let_def)

text \<open>
  C7. The fields of the analyzer are the non-empty \<open>name\<close> attributes of the \<open>column\<close>
  tags in first-seen order: every such name is there exactly once, at the place of its
  first occurrence. Two column tags named \<open>Revenue\<close> give \<open>Revenue\<close> once, in first-seen
  position.
\<close>

theorem columns_first_seen_once:
  "collect_columns (find_all ''column'' soup) [] =
     first_seen (filter (\<lambda>name. name \<noteq> [])
                   (map (\<lambda>t. tag_get t ''name'' []) (find_all ''column'' soup)))
   \<and> distinct (collect_columns (find_all ''column'' soup) [])
   \<and> set (collect_columns (find_all ''column'' soup) []) =
       {name. name \<noteq> [] \<and> name \<in> (\<lambda>t. tag_get t ''name'' []) ` set (find_all ''column'' soup)}
   \<and> (analyze soup = Some r \<longrightarrow>
        found_columns r = collect_columns (find_all ''column'' soup) [])
   \<and> collect_columns
        (find_all ''column''
           [Node ''workbook'' []
              [Node ''column'' [(''name'', ''Revenue'')] [],
               Node ''column'' [(''name'', ''Cost'')]
                 [Node ''column'' [(''name'', ''Revenue'')] []]]]) []
       = [''Revenue'', ''Cost'']"
proof -
  have 1: "collect_columns cs [] =
     first_seen (filter (\<lambda>name. name \<noteq> []) (map (\<lambda>t. tag_get t ''name'' []) cs))" for cs
    by (simp add: collect_columns_first_seen)
  have 2: "analyze soup = Some r \<Longrightarrow> found_columns r = collect_columns (find_all ''column'' soup) []"
    by (auto simp: analyze_def Let_def split: list.splits)
  have 3: "collect_columns
        (find_all ''column''
           [Node ''workbook'' []
              [Node ''column'' [(''name'', ''Revenue'')] [],
               Node ''column'' [(''name'', ''Cost'')]
                 [Node ''column'' [(''name'', ''Revenue'')] []]]]) []
       = [''Revenue'', ''Cost'']"
    by (simp add: find_all_def tag_get_def)
  show ?thesis
    unfolding 1 using 2 3 unfolding 1
    by (auto simp: distinct_first_seen set_first_seen)
qed

theorem columns_first_seen_once_witness:
  "map_option found_columns
     (analyze [Node ''workbook'' []
        [Node ''column'' [(''name'', ''Revenue'')] [],
         Node ''column'' [(''name'', ''Revenue'')] []]]) = Some [''Revenue'']"
  using columns_first_seen_once[of
      "[Node ''workbook'' []
        [Node ''column'' [(''name'', ''Revenue'')] [],
         Node ''column'' [(''name'', ''Revenue'')] []]]"
      "\<lparr>workbook_version = ''unknown'', found_columns = [''Revenue''], found_formulas = [],
        found_worksheets = [], found_prefixes = [], shown_patterns = []\<rparr>"]
  by (simp add: analyze_def find_all_def tag_get_def displayed_patterns_def str_split_def
      is_space_def)

text \<open>
  C8. A prefix \<open>p\<close> is displayed with the group \<open>g\<close> exactly when \<open>g\<close> is the list of the
  field names with two tokens or more whose first token is \<open>p\<close>, and \<open>g\<close> has two members
  or more; no prefix is displayed twice; a field name with a single token is in no
  displayed group. The fields \<open>["Region North","Region South","Profit"]\<close> give exactly
  the cluster \<open>{"Region": ["Region North","Region South"]}\<close>.
\<close>

theorem clusters_by_first_token:
  "((p, g) \<in> set (displayed_patterns (detect_prefixes cols [])) \<longleftrightarrow>
      g = prefix_group p cols \<and> 2 \<le> length g)
   \<and> distinct (map fst (displayed_patterns (detect_prefixes cols [])))
   \<and> (length (str_split c) < 2 \<and> (p, g) \<in> set (displayed_patterns (detect_prefixes cols []))
        \<longrightarrow> c \<notin> set g)
   \<and> displayed_patterns (detect_prefixes [''Region North'', ''Region South'', ''Profit''] [])
       = [(''Region'', [''Region North'', ''Region South''])]"
proof -
  have ex: "displayed_patterns (detect_prefixes [''Region North'', ''Region South'', ''Profit''] [])
       = [(''Region'', [''Region North'', ''Region South''])]"
    by (simp add: displayed_patterns_def str_split_def is_space_def)
  have d: "distinct (map fst (displayed_patterns (detect_prefixes cols [])))"
    unfolding displayed_patterns_def
    by (rule distinct_map_filter) (rule detect_prefixes_keys, simp)
  have s: "c \<notin> set g"
    if "length (str_split c) < 2" "(p, g) \<in> set (displayed_patterns (detect_prefixes cols []))"
    using that by (auto simp: displayed_patterns_iff prefix_group_def)
  from ex d s show ?thesis
    using displayed_patterns_iff[of p g cols] by blast
qed

theorem clusters_by_first_token_witness:
  "length (str_split ''Profit'') < 2
   \<and> (''Region'', [''Region North'', ''Region South''])
       \<in> set (displayed_patterns (detect_prefixes [''Region North'', ''Region South'', ''Profit''] []))
   \<and> prefix_group ''Region'' [''Region North'', ''Region South'', ''Profit'']
       = [''Region North'', ''Region South'']
   \<and> ''Profit'' \<notin> set [''Region North'', ''Region South'']"
  using clusters_by_first_token[of "''Region''" "[''Region North'', ''Region South'']"
      "[''Region North'', ''Region South'', ''Profit'']" "''Profit''"]
  by (simp add: prefix_group_def str_split_def is_space_def)

end
